theory Spec2Isabelle
  imports Complex_Main
begin

section \<open>The rolling price window and regression predictor of the bid-suggestion component\<close>

text \<open>
  The component keeps two pieces of React state, \<open>priceHistory\<close> and \<open>regressionModel\<close>,
  and reads the \<open>marketData\<close> property. JavaScript numbers are modelled as real numbers:
  rounding and overflow are outside the model, and so is \<open>NaN\<close> except in the second
  form of the prediction, which takes a stored fit that may hold \<open>NaN\<close>. The wall clock
  (\<open>Date.now()\<close>, \<open>new Date().getHours()\<close>) and every \<open>Math.random()\<close> draw are
  explicit arguments of the functions that read them.
\<close>

subsection \<open>Data\<close>

text \<open>
  \<open>marketData\<close>: a field that is \<open>undefined\<close> is \<open>None\<close>. The component only reads it
  through \<open>marketData?.field\<close> or behind a guard on \<open>marketData?.currentPrice\<close>, so an
  absent \<open>marketData\<close> behaves as the record with every field \<open>None\<close>.
\<close>

record MarketData =
  currentPrice :: "real option"
  demand :: "real option"
  renewablePercentage :: "real option"

text \<open>
  One entry of \<open>priceHistory\<close>. The first updater stores only \<open>timestamp\<close> and \<open>price\<close>,
  so the other fields are optional.
\<close>

record PriceEntry =
  price :: real
  timestamp :: int
  hour :: "nat option"
  entryDemand :: "real option"
  entryRenewablePercentage :: "real option"

text \<open>
  The object returned by \<open>computeLinearRegression\<close> (\<open>slope\<close>, \<open>intercept\<close>, \<open>rSquared\<close>) or
  by \<open>computePolynomialRegression\<close> (\<open>coefficients\<close>, \<open>rSquared\<close>).
\<close>

datatype Fit =
  LinearFit (slope: real) (intercept: real) (rSquared: real)
| PolyFit (coefficients: "real list") (rSquared: real)

datatype ModelType = linear | polynomial

datatype Trend = upward | downward | stable | complex

text \<open>
  \<open>regressionModel\<close>: the object \<open>{ type, ...fit, lastUpdate, dataPoints, trend }\<close>; the
  spread fit is the field \<open>mfit\<close>.
\<close>

record RegressionModel =
  mtype :: ModelType
  mfit :: Fit
  lastUpdate :: int
  dataPoints :: nat
  trend :: Trend

record State =
  priceHistory :: "PriceEntry list"
  regressionModel :: "RegressionModel option"

datatype Method = fallback | ofType ModelType

text \<open>
  The object returned by \<open>predictPriceWithRegression\<close>. The fallback object has only
  \<open>predictedPrice\<close>, \<open>confidence\<close> and \<open>method\<close> (here \<open>methodOut\<close>); a field it lacks
  is \<open>None\<close>.
\<close>

record Prediction =
  predictedPrice :: real
  confidence :: real
  methodOut :: Method
  rSquaredOut :: "real option"
  trendOut :: "Trend option"
  volatility :: "real option"

datatype js_error = TypeError

subsection \<open>JavaScript helpers\<close>

text \<open>\<open>a || b\<close> on an optional number: \<open>undefined\<close> and \<open>0\<close> are falsy.\<close>

fun orElse :: "real option \<Rightarrow> real \<Rightarrow> real" where
  "orElse None d = d"
| "orElse (Some v) d = (if v = 0 then d else v)"

text \<open>\<open>xs.slice(-k)\<close>: the last \<open>k\<close> elements, the whole array when it is shorter.\<close>

definition sliceLast :: "nat \<Rightarrow> 'a list \<Rightarrow> 'a list" where
  "sliceLast k xs = drop (length xs - k) xs"

text \<open>\<open>m[i]\<close> for a row that is then indexed: reading a cell of a missing row throws.\<close>

definition rowAt :: "real list list \<Rightarrow> nat \<Rightarrow> js_error + real list" where
  "rowAt m i = (if i < length m then Inr (m ! i) else Inl TypeError)"

subsection \<open>computeLinearRegression\<close>

definition computeLinearRegression :: "real list \<Rightarrow> real list \<Rightarrow> Fit" where
  "computeLinearRegression xData yData =
    (let n = length xData in
     if n < 2 then LinearFit 0 0 0
     else
       let xMean = foldl (\<lambda>sum x. sum + x) 0 xData / real n;
           yMean = foldl (\<lambda>sum y. sum + y) 0 yData / real n;
           numerator = foldl (\<lambda>acc i. acc + (xData ! i - xMean) * (yData ! i - yMean)) 0 [0..<n];
           denominator = foldl (\<lambda>acc i. acc + (xData ! i - xMean) ^ 2) 0 [0..<n];
           ssTotal = foldl (\<lambda>acc i. acc + (yData ! i - yMean) ^ 2) 0 [0..<n];
           slope' = (if denominator \<noteq> 0 then numerator / denominator else 0);
           intercept' = yMean - slope' * xMean;
           ssRes = foldl (\<lambda>acc i. acc + (yData ! i - (slope' * xData ! i + intercept')) ^ 2) 0 [0..<n];
           rSquared' = (if ssTotal \<noteq> 0 then 1 - ssRes / ssTotal else 0)
       in LinearFit slope' intercept' (max 0 rSquared'))"

subsection \<open>computePolynomialRegression\<close>

text \<open>The Vandermonde matrix \<open>X\<close>: row \<open>i\<close> is \<open>[x\<^sub>i\<^sup>0, ..., x\<^sub>i\<^sup>d\<^sup>e\<^sup>g\<^sup>r\<^sup>e\<^sup>e]\<close>.\<close>

definition vandermonde :: "real list \<Rightarrow> nat \<Rightarrow> real list list" where
  "vandermonde xData degree =
     map (\<lambda>i. map (\<lambda>j. (xData ! i) ^ j) [0..<degree + 1]) [0..<length xData]"

text \<open>\<open>X[0].map((_, colIndex) => X.map(row => row[colIndex]))\<close>\<close>

definition transposeX :: "real list list \<Rightarrow> real list list" where
  "transposeX X = map (\<lambda>colIndex. map (\<lambda>row. row ! colIndex) X) [0..<length (X ! 0)]"

text \<open>\<open>row.reduce((sum, val, i) => sum + val * other[i], 0)\<close>\<close>

definition dotIndexed :: "real list \<Rightarrow> real list \<Rightarrow> real" where
  "dotIndexed row other =
     foldl (\<lambda>sum (val, i). sum + val * other ! i) 0 (zip row [0..<length row])"

definition normalMatrix :: "real list \<Rightarrow> nat \<Rightarrow> real list list" where
  "normalMatrix xData degree =
     (let XT = transposeX (vandermonde xData degree)
      in map (\<lambda>row1. map (\<lambda>row2. dotIndexed row1 row2) XT) XT)"

definition normalRhs :: "real list \<Rightarrow> real list \<Rightarrow> nat \<Rightarrow> real list" where
  "normalRhs xData yData degree =
     map (\<lambda>row. dotIndexed row yData) (transposeX (vandermonde xData degree))"

text \<open>The determinant \<open>det\<close> of the top-left 3x3 block, from its three rows.\<close>

definition det3 :: "real list \<Rightarrow> real list \<Rightarrow> real list \<Rightarrow> real" where
  "det3 r0 r1 r2 =
     r0 ! 0 * (r1 ! 1 * r2 ! 2 - r1 ! 2 * r2 ! 1) -
     r0 ! 1 * (r1 ! 0 * r2 ! 2 - r1 ! 2 * r2 ! 0) +
     r0 ! 2 * (r1 ! 0 * r2 ! 1 - r1 ! 1 * r2 ! 0)"

definition cramer :: "real list \<Rightarrow> real list \<Rightarrow> real list \<Rightarrow> real list \<Rightarrow> real \<Rightarrow> real list" where
  "cramer r0 r1 r2 XTy det =
     [(XTy ! 0 * (r1 ! 1 * r2 ! 2 - r1 ! 2 * r2 ! 1) -
       r0 ! 1 * (XTy ! 1 * r2 ! 2 - XTy ! 2 * r1 ! 2) +
       r0 ! 2 * (XTy ! 1 * r2 ! 1 - XTy ! 2 * r1 ! 1)) / det,
      (r0 ! 0 * (XTy ! 1 * r2 ! 2 - XTy ! 2 * r1 ! 2) -
       XTy ! 0 * (r1 ! 0 * r2 ! 2 - r1 ! 2 * r2 ! 0) +
       r0 ! 2 * (r1 ! 0 * XTy ! 2 - XTy ! 1 * r2 ! 0)) / det,
      (r0 ! 0 * (r1 ! 1 * XTy ! 2 - XTy ! 1 * r2 ! 1) -
       r0 ! 1 * (r1 ! 0 * XTy ! 2 - XTy ! 1 * r2 ! 0) +
       XTy ! 0 * (r1 ! 0 * r2 ! 1 - r1 ! 1 * r2 ! 0)) / det]"

text \<open>
  The fallback object of the singular branch and of the \<open>catch\<close> block: the linear fit's
  coefficients with a zero quadratic term.
\<close>

definition linearPadded :: "real list \<Rightarrow> real list \<Rightarrow> Fit" where
  "linearPadded xData yData =
     (let linear = computeLinearRegression xData yData
      in PolyFit [intercept linear, slope linear, 0] (rSquared linear))"

definition polyRSquared :: "real list \<Rightarrow> real list \<Rightarrow> real list \<Rightarrow> real" where
  "polyRSquared xData yData cs =
     (let n = length xData;
          yMean = foldl (\<lambda>sum y. sum + y) 0 yData / real n;
          ssTotal = foldl (\<lambda>acc i. acc + (yData ! i - yMean) ^ 2) 0 [0..<n];
          ssRes = foldl (\<lambda>acc i. acc +
                    (yData ! i - (cs ! 0 + cs ! 1 * xData ! i + cs ! 2 * xData ! i * xData ! i)) ^ 2)
                    0 [0..<n]
      in if ssTotal \<noteq> 0 then max 0 (1 - ssRes / ssTotal) else 0)"

text \<open>
  The body of the \<open>try\<close> block. The matrix \<open>XTX\<close> has \<open>degree + 1\<close> rows; the determinant
  reads rows 0, 1 and 2, and reading a cell of a missing row throws a \<open>TypeError\<close>.
\<close>

definition polyTry :: "real list \<Rightarrow> real list \<Rightarrow> nat \<Rightarrow> js_error + Fit" where
  "polyTry xData yData degree =
     (let XTX = normalMatrix xData degree;
          XTy = normalRhs xData yData degree
      in case rowAt XTX 0 of Inl e \<Rightarrow> Inl e | Inr r0 \<Rightarrow>
         (case rowAt XTX 1 of Inl e \<Rightarrow> Inl e | Inr r1 \<Rightarrow>
         (case rowAt XTX 2 of Inl e \<Rightarrow> Inl e | Inr r2 \<Rightarrow>
           (let det = det3 r0 r1 r2 in
            if \<bar>det\<bar> < 1 / 10 ^ 10 then Inr (linearPadded xData yData)
            else
              let coefficients' = cramer r0 r1 r2 XTy det
              in Inr (PolyFit coefficients' (polyRSquared xData yData coefficients'))))))"

definition computePolynomialRegression :: "real list \<Rightarrow> real list \<Rightarrow> nat \<Rightarrow> Fit" where
  "computePolynomialRegression xData yData degree =
     (if length xData < degree + 1 then PolyFit [0, 0, 0] 0
      else case polyTry xData yData degree of
             Inr result \<Rightarrow> result
           | Inl error \<Rightarrow> linearPadded xData yData)"

text \<open>The value of the variable \<open>det\<close> for \<open>degree = 2\<close>.\<close>

definition polyDet :: "real list \<Rightarrow> real" where
  "polyDet xData =
     (let XTX = normalMatrix xData 2 in det3 (XTX ! 0) (XTX ! 1) (XTX ! 2))"

subsection \<open>Fitting the model (the block under \<open>newHistory.length >= 3\<close>)\<close>

definition classifyTrend :: "ModelType \<Rightarrow> Fit \<Rightarrow> Trend" where
  "classifyTrend ty selected =
     (if ty = linear then
        (if slope selected > 0.01 then upward
         else if slope selected < - 0.01 then downward
         else stable)
      else complex)"

definition fitModel :: "PriceEntry list \<Rightarrow> int \<Rightarrow> RegressionModel" where
  "fitModel newHistory now =
     (let xData = map real [0..<length newHistory];
          yData = map price newHistory;
          linearModel = computeLinearRegression xData yData;
          polyModel = (if length newHistory \<ge> 5
                       then computePolynomialRegression xData yData 2
                       else linearModel);
          selectedType = (if rSquared polyModel > rSquared linearModel + 0.1
                          then polynomial else linear);
          selectedModel = (if rSquared polyModel > rSquared linearModel + 0.1
                           then polyModel else linearModel)
      in \<lparr> mtype = selectedType, mfit = selectedModel, lastUpdate = now,
           dataPoints = length newHistory,
           trend = classifyTrend selectedType selectedModel \<rparr>)"

subsection \<open>The updaters of \<open>priceHistory\<close>\<close>

text \<open>
  The duplicate test of the effect on \<open>[currentPrice, timestamp]\<close>: the last entry has a
  price within 0.01 and is less than 30000 ms old.
\<close>

definition isDuplicate :: "PriceEntry list \<Rightarrow> real \<Rightarrow> int \<Rightarrow> bool" where
  "isDuplicate prev p now =
     (prev \<noteq> [] \<and> \<bar>price (last prev) - p\<bar> < 0.01 \<and> now - timestamp (last prev) < 30000)"

definition newEntry :: "MarketData \<Rightarrow> real \<Rightarrow> int \<Rightarrow> nat \<Rightarrow> PriceEntry" where
  "newEntry marketData p now nowHour =
     \<lparr> price = p, timestamp = now, hour = Some nowHour,
       entryDemand = Some (orElse (demand marketData) 0),
       entryRenewablePercentage = Some (orElse (renewablePercentage marketData) 0) \<rparr>"

text \<open>
  The effect on \<open>[marketData?.currentPrice, marketData?.timestamp]\<close>: the rolling window
  of 50 entries, with the model refitted when the window has at least 3 entries.
  \<open>now\<close> is \<open>Date.now()\<close> and \<open>nowHour\<close> is \<open>new Date().getHours()\<close>.
\<close>

definition recordPrice :: "MarketData \<Rightarrow> int \<Rightarrow> nat \<Rightarrow> State \<Rightarrow> State" where
  "recordPrice marketData now nowHour st =
     (case currentPrice marketData of
        None \<Rightarrow> st
      | Some p \<Rightarrow>
          if p \<noteq> 0 \<and> p > 0 then
            (let prev = priceHistory st in
             if isDuplicate prev p now then st
             else
               let newHistory = sliceLast 50 (prev @ [newEntry marketData p now nowHour])
               in \<lparr> priceHistory = newHistory,
                    regressionModel =
                      (if length newHistory \<ge> 3 then Some (fitModel newHistory now)
                       else regressionModel st) \<rparr>)
          else st)"

text \<open>
  The effect on \<open>[marketData?.currentPrice]\<close> alone: it skips a price within 0.01 of the
  last one whatever the time, stores only \<open>timestamp\<close> and \<open>price\<close>, and does not refit.
\<close>

definition recordPriceChange :: "MarketData \<Rightarrow> int \<Rightarrow> State \<Rightarrow> State" where
  "recordPriceChange marketData now st =
     (case currentPrice marketData of
        None \<Rightarrow> st
      | Some p \<Rightarrow>
          if p \<noteq> 0 \<and> p > 0 then
            (let prev = priceHistory st in
             if prev \<noteq> [] \<and> \<bar>price (last prev) - p\<bar> < 0.01 then st
             else
               let updated = prev @ [\<lparr> price = p, timestamp = now, hour = None,
                                      entryDemand = None, entryRenewablePercentage = None \<rparr>]
               in if length updated > 50
                  then st\<lparr> priceHistory := sliceLast 50 updated \<rparr>
                  else st\<lparr> priceHistory := updated \<rparr>)
          else st)"

text \<open>One observation: the market data and the clock readings taken with it.\<close>

record Observation =
  obsData :: MarketData
  obsNow :: int
  obsHour :: nat

definition recordObs :: "State \<Rightarrow> Observation \<Rightarrow> State" where
  "recordObs st ob = recordPrice (obsData ob) (obsNow ob) (obsHour ob) st"

definition obsEntry :: "Observation \<Rightarrow> PriceEntry" where
  "obsEntry ob = newEntry (obsData ob) (the (currentPrice (obsData ob))) (obsNow ob) (obsHour ob)"

text \<open>
  An observation is admitted by \<open>recordPrice\<close>: its price is present and positive, and it
  is not a duplicate of the last entry.
\<close>

definition admitted :: "PriceEntry list \<Rightarrow> Observation \<Rightarrow> bool" where
  "admitted prev ob =
     (case currentPrice (obsData ob) of
        None \<Rightarrow> False
      | Some p \<Rightarrow> p > 0 \<and> \<not> isDuplicate prev p (obsNow ob))"

text \<open>Every observation of a sequence is admitted in the state it arrives in.\<close>

fun allAdmitted :: "State \<Rightarrow> Observation list \<Rightarrow> bool" where
  "allAdmitted st [] = True"
| "allAdmitted st (ob # obs) =
     (admitted (priceHistory st) ob \<and> allAdmitted (recordObs st ob) obs)"

definition emptyState :: State where
  "emptyState = \<lparr> priceHistory = [], regressionModel = None \<rparr>"

subsection \<open>predictPriceWithRegression\<close>

definition isPeakHour :: "nat \<Rightarrow> bool" where
  "isPeakHour h = ((h \<ge> 8 \<and> h \<le> 12) \<or> (h \<ge> 18 \<and> h \<le> 22))"

definition isNightHour :: "nat \<Rightarrow> bool" where
  "isNightHour h = (h \<ge> 23 \<or> h \<le> 6)"

text \<open>The sample standard deviation of the last 10 prices.\<close>

definition recentVolatility :: "PriceEntry list \<Rightarrow> real" where
  "recentVolatility history =
     (let recentPrices = map price (sliceLast 10 history) in
      if length recentPrices > 1 then
        sqrt (foldl (\<lambda>sum p.
                 let mean = foldl (\<lambda>a b. a + b) 0 recentPrices / real (length recentPrices)
                 in sum + (p - mean) ^ 2) 0 recentPrices
              / real (length recentPrices - 1))
      else 0)"

text \<open>The model evaluated at \<open>futureIndex\<close>.\<close>

definition evalModel :: "RegressionModel \<Rightarrow> real \<Rightarrow> real" where
  "evalModel m futureIndex =
     (if mtype m = linear then slope (mfit m) * futureIndex + intercept (mfit m)
      else coefficients (mfit m) ! 0 + coefficients (mfit m) ! 1 * futureIndex
           + coefficients (mfit m) ! 2 * futureIndex * futureIndex)"

text \<open>
  \<open>nowHour\<close> is \<open>new Date().getHours()\<close>; \<open>rndHour\<close> is the \<open>Math.random()\<close> draw of the
  peak or night multiplier and \<open>rndNoise\<close> the draw of the noise term.
\<close>

definition predictPriceWithRegression ::
  "State \<Rightarrow> MarketData \<Rightarrow> nat \<Rightarrow> real \<Rightarrow> real \<Rightarrow> nat \<Rightarrow> Prediction" where
  "predictPriceWithRegression st marketData nowHour rndHour rndNoise hoursAhead =
     (case regressionModel st of
        None \<Rightarrow>
          \<lparr> predictedPrice = orElse (currentPrice marketData) 45.0, confidence = 30,
            methodOut = fallback, rSquaredOut = None, trendOut = None, volatility = None \<rparr>
      | Some m \<Rightarrow>
          if length (priceHistory st) < 3 then
            \<lparr> predictedPrice = orElse (currentPrice marketData) 45.0, confidence = 30,
              methodOut = fallback, rSquaredOut = None, trendOut = None, volatility = None \<rparr>
          else
            (let currentIndex = real (length (priceHistory st)) - 1;
                 futureIndex = currentIndex + real hoursAhead;
                 confidence0 = min 95 (rSquared (mfit m) * 100);
                 price0 = evalModel m futureIndex;
                 currentHour = (nowHour + hoursAhead) mod 24;
                 price1 = (if isPeakHour currentHour then price0 * (1.05 + rndHour * 0.05)
                           else if isNightHour currentHour then price0 * (0.92 - rndHour * 0.05)
                           else price0);
                 confidence1 = (if isPeakHour currentHour then confidence0 + 5
                                else if isNightHour currentHour then confidence0 + 3
                                else confidence0);
                 volatility' = recentVolatility (priceHistory st);
                 noiseAdjustment = (rndNoise - 0.5) * volatility' * 0.3;
                 price2 = price1 + noiseAdjustment;
                 confidence2 = max 25 (confidence1 - real hoursAhead * 5)
             in \<lparr> predictedPrice = max 10 price2, confidence = confidence2,
                  methodOut = ofType (mtype m), rSquaredOut = Some (rSquared (mfit m)),
                  trendOut = Some (trend m), volatility = Some volatility' \<rparr>))"

subsection \<open>The prediction on numbers that may be \<open>NaN\<close>\<close>


















text \<open>
  The stored type agrees with the fields of the stored fit, as in every model that the
  fitting block builds.
\<close>

definition wellFormed :: "RegressionModel \<Rightarrow> bool" where
  "wellFormed m = (case mfit m of
                     LinearFit s i r \<Rightarrow> mtype m = linear
                   | PolyFit cs r \<Rightarrow> mtype m = polynomial \<and> length cs = 3)"

subsection \<open>Example inputs\<close>

text \<open>Market data carrying only a price, and an observation of it at 9 o'clock.\<close>

definition quote :: "real \<Rightarrow> MarketData" where
  "quote p = \<lparr> currentPrice = Some p, demand = None, renewablePercentage = None \<rparr>"

definition observe :: "real \<Rightarrow> int \<Rightarrow> Observation" where
  "observe p t = \<lparr> obsData = quote p, obsNow = t, obsHour = 9 \<rparr>"

definition oneEntryState :: State where
  "oneEntryState = recordPrice (quote 45) 0 9 emptyState"


text \<open>
  The amount the two \<open>confidence +=\<close> branches of \<open>predictPriceWithRegression\<close> add for
  the target hour.
\<close>

definition hourBonus :: "nat \<Rightarrow> real" where
  "hourBonus h = (if isPeakHour h then 5 else if isNightHour h then 3 else 0)"

text \<open>The entry that \<open>recordPrice\<close> stores for the price \<open>p\<close> observed at time \<open>t\<close>, 9 o'clock.\<close>

definition entryAt :: "real \<Rightarrow> int \<Rightarrow> PriceEntry" where
  "entryAt p t = newEntry (quote p) p t 9"

text \<open>The state \<open>recordPrice\<close> leaves when it stores the window \<open>w\<close> and refits the model.\<close>

definition fittedState :: "PriceEntry list \<Rightarrow> State" where
  "fittedState w = \<lparr> priceHistory = w, regressionModel = Some (fitModel w (timestamp (last w))) \<rparr>"

text \<open>Five prices on a line of slope 2, one minute apart.\<close>

definition lineWindow :: "PriceEntry list" where
  "lineWindow = [entryAt 40 0, entryAt 42 60000, entryAt 44 120000, entryAt 46 180000,
                 entryAt 48 240000]"

text \<open>Five prices on the parabola \<open>(x - 2)\<^sup>2 + 1\<close>.\<close>

definition parabolaWindow :: "PriceEntry list" where
  "parabolaWindow = [entryAt 5 0, entryAt 2 60000, entryAt 1 120000, entryAt 2 180000,
                     entryAt 5 240000]"

text \<open>Three steeply falling prices.\<close>

definition fallingWindow :: "PriceEntry list" where
  "fallingWindow = [entryAt 100 0, entryAt 50 60000, entryAt 1 120000]"

text \<open>Three equal prices.\<close>

definition flatWindow :: "PriceEntry list" where
  "flatWindow = [entryAt 45 0, entryAt 45 60000, entryAt 45 120000]"



section \<open>The rolling window\<close>

lemma length_sliceLast: "length (sliceLast k xs) = min (length xs) k"
  by (simp add: sliceLast_def)

lemma sliceLast_sliceLast_append:
  "sliceLast k (sliceLast k xs @ ys) = sliceLast k (xs @ ys)"
proof (cases "length xs \<le> k")
  case True
  then show ?thesis by (simp add: sliceLast_def)
next
  case False
  then have "length xs + length ys - (length xs - k + k) + (length xs - k)
               = length xs + length ys - k"
    by arith
  then show ?thesis by (simp add: sliceLast_def)
qed

lemma sliceLast_snoc_last:
  "0 < k \<Longrightarrow> last (sliceLast k (xs @ [x])) = x"
  by (simp add: sliceLast_def)

lemma sliceLast_snoc_neq:
  assumes "0 < k" and "sliceLast k (xs @ [x]) = xs"
  shows "xs \<noteq> [] \<and> last xs = x"
proof -
  have "sliceLast k (xs @ [x]) \<noteq> []"
    using assms(1) by (simp add: sliceLast_def)
  then have ne: "xs \<noteq> []" using assms(2) by simp
  have "last (sliceLast k (xs @ [x])) = x"
    using assms(1) by (rule sliceLast_snoc_last)
  then show ?thesis using ne assms(2) by simp
qed

lemma priceHistory_recordPrice:
  assumes "currentPrice md = Some p" and "p > 0" and "\<not> isDuplicate (priceHistory st) p now"
  shows "priceHistory (recordPrice md now h st)
           = sliceLast 50 (priceHistory st @ [newEntry md p now h])"
  using assms by (simp add: recordPrice_def Let_def)

lemma recordPrice_duplicate:
  assumes "currentPrice md = Some p" and "isDuplicate (priceHistory st) p now"
  shows "recordPrice md now h st = st"
  using assms by (simp add: recordPrice_def Let_def)

lemma recordPrice_noop_iff:
  assumes "currentPrice md = Some p" and "p > 0"
  shows "recordPrice md now h st = st \<longleftrightarrow> isDuplicate (priceHistory st) p now"
proof
  assume eq: "recordPrice md now h st = st"
  show "isDuplicate (priceHistory st) p now"
  proof (rule ccontr)
    assume nd: "\<not> isDuplicate (priceHistory st) p now"
    have "priceHistory (recordPrice md now h st)
            = sliceLast 50 (priceHistory st @ [newEntry md p now h])"
      using assms nd by (rule priceHistory_recordPrice)
    then have "sliceLast 50 (priceHistory st @ [newEntry md p now h]) = priceHistory st"
      using eq by simp
    then have "priceHistory st \<noteq> [] \<and> last (priceHistory st) = newEntry md p now h"
      using sliceLast_snoc_neq [of 50] by simp
    then have "isDuplicate (priceHistory st) p now"
      by (simp add: isDuplicate_def newEntry_def)
    then show False using nd by simp
  qed
next
  assume "isDuplicate (priceHistory st) p now"
  then show "recordPrice md now h st = st"
    using assms(1) by (rule recordPrice_duplicate [rotated])
qed

lemma priceHistory_recordObs:
  assumes "admitted (priceHistory st) ob"
  shows "priceHistory (recordObs st ob) = sliceLast 50 (priceHistory st @ [obsEntry ob])"
proof -
  from assms obtain p where p: "currentPrice (obsData ob) = Some p" "p > 0"
      "\<not> isDuplicate (priceHistory st) p (obsNow ob)"
    by (auto simp: admitted_def split: option.splits)
  then show ?thesis
    by (simp add: recordObs_def obsEntry_def priceHistory_recordPrice)
qed

lemma priceHistory_foldl_recordObs:
  "length (priceHistory st) \<le> 50 \<Longrightarrow> allAdmitted st obs \<Longrightarrow>
   priceHistory (foldl recordObs st obs) = sliceLast 50 (priceHistory st @ map obsEntry obs)"
proof (induction obs arbitrary: st)
  case Nil
  then show ?case by (simp add: sliceLast_def)
next
  case (Cons ob obs)
  then show ?case
    by (simp add: priceHistory_recordObs sliceLast_sliceLast_append length_sliceLast)
qed

text \<open>
  Claim C2. Starting from the empty window, after any sequence of observations that
  \<open>recordPrice\<close> admits (positive price, not a duplicate of the last entry) the window has
  \<open>min (number inserted) 50\<close> entries, and it holds the most recent ones in insertion order:
  the oldest entries are the ones dropped.
\<close>

theorem window_length_fifo:
  assumes "allAdmitted emptyState obs"
  shows "length (priceHistory (foldl recordObs emptyState obs)) = min (length obs) 50
       \<and> priceHistory (foldl recordObs emptyState obs)
           = drop (length obs - 50) (map obsEntry obs)"
proof -
  have "priceHistory (foldl recordObs emptyState obs)
          = sliceLast 50 (priceHistory emptyState @ map obsEntry obs)"
    using assms by (intro priceHistory_foldl_recordObs) (simp_all add: emptyState_def)
  then have "priceHistory (foldl recordObs emptyState obs) = sliceLast 50 (map obsEntry obs)"
    by (simp add: emptyState_def)
  then show ?thesis by (simp add: sliceLast_def)
qed


text \<open>Three admitted observations give a window of exactly these three prices.\<close>

theorem window_length_fifo_witness:
  "allAdmitted emptyState [observe 45 0, observe 46 1000, observe 47 2000]
   \<and> length (priceHistory (foldl recordObs emptyState
               [observe 45 0, observe 46 1000, observe 47 2000])) = 3
   \<and> map price (priceHistory (foldl recordObs emptyState
               [observe 45 0, observe 46 1000, observe 47 2000])) = [45, 46, 47]"
proof -
  have a: "allAdmitted emptyState [observe 45 0, observe 46 1000, observe 47 2000]"
    by (simp add: admitted_def isDuplicate_def emptyState_def observe_def quote_def
          recordObs_def recordPrice_def sliceLast_def newEntry_def)
  show ?thesis
    using a window_length_fifo [OF a]
    by (simp add: obsEntry_def observe_def quote_def newEntry_def)
qed

text \<open>
  Claim C3. For a positive price, \<open>recordPrice\<close> leaves the state unchanged exactly when
  the window has a last entry whose price is within 0.01 and that is less than 30000 ms
  old. A price arriving 30000 ms or more after the last entry is appended whatever its
  value, and the price 45.0 recorded three times, each more than 30 s after the one
  before, gives a window of length 3.
\<close>

theorem record_noop_iff_recent_duplicate:
  "(currentPrice marketData = Some p \<and> p > 0 \<longrightarrow>
      (recordPrice marketData now nowHour st = st \<longleftrightarrow>
         priceHistory st \<noteq> []
         \<and> \<bar>price (last (priceHistory st)) - p\<bar> < 0.01
         \<and> now - timestamp (last (priceHistory st)) < 30000))
   \<and> (currentPrice marketData = Some p \<and> p > 0
        \<and> (priceHistory st \<noteq> [] \<longrightarrow> now - timestamp (last (priceHistory st)) \<ge> 30000) \<longrightarrow>
      priceHistory (recordPrice marketData now nowHour st)
        = sliceLast 50 (priceHistory st @ [newEntry marketData p now nowHour]))
   \<and> (t2 - t1 > 30000 \<and> t3 - t2 > 30000 \<longrightarrow>
      length (priceHistory (recordPrice (quote 45) t3 h3
                (recordPrice (quote 45) t2 h2
                   (recordPrice (quote 45) t1 h1 emptyState)))) = 3)"
proof (intro conjI impI)
  assume "currentPrice marketData = Some p \<and> p > 0"
  then show "recordPrice marketData now nowHour st = st \<longleftrightarrow>
         priceHistory st \<noteq> []
         \<and> \<bar>price (last (priceHistory st)) - p\<bar> < 0.01
         \<and> now - timestamp (last (priceHistory st)) < 30000"
    using recordPrice_noop_iff [of marketData p now nowHour st]
    by (simp add: isDuplicate_def)
next
  assume h: "currentPrice marketData = Some p \<and> p > 0
        \<and> (priceHistory st \<noteq> [] \<longrightarrow> now - timestamp (last (priceHistory st)) \<ge> 30000)"
  then have "\<not> isDuplicate (priceHistory st) p now"
    by (auto simp: isDuplicate_def)
  then show "priceHistory (recordPrice marketData now nowHour st)
        = sliceLast 50 (priceHistory st @ [newEntry marketData p now nowHour])"
    using h by (simp add: priceHistory_recordPrice)
next
  assume h: "t2 - t1 > 30000 \<and> t3 - t2 > 30000"
  let ?q = "quote 45"
  let ?s1 = "recordPrice ?q t1 h1 emptyState"
  let ?s2 = "recordPrice ?q t2 h2 ?s1"
  have q: "currentPrice ?q = Some 45" by (simp add: quote_def)
  have p1: "priceHistory ?s1 = [newEntry ?q 45 t1 h1]"
    using priceHistory_recordPrice [OF q, of emptyState t1 h1]
    by (simp add: isDuplicate_def emptyState_def sliceLast_def)
  have "\<not> isDuplicate (priceHistory ?s1) 45 t2"
    using h by (simp add: p1 isDuplicate_def newEntry_def)
  then have p2: "priceHistory ?s2 = [newEntry ?q 45 t1 h1, newEntry ?q 45 t2 h2]"
    using priceHistory_recordPrice [OF q, of ?s1 t2 h2]
    by (simp add: p1 sliceLast_def)
  have "\<not> isDuplicate (priceHistory ?s2) 45 t3"
    using h by (simp add: p2 isDuplicate_def newEntry_def)
  then have "priceHistory (recordPrice ?q t3 h3 ?s2)
               = [newEntry ?q 45 t1 h1, newEntry ?q 45 t2 h2, newEntry ?q 45 t3 h3]"
    using priceHistory_recordPrice [OF q, of ?s2 t3 h3]
    by (simp add: p2 sliceLast_def)
  then show "length (priceHistory (recordPrice ?q t3 h3 ?s2)) = 3"
    by simp
qed

text \<open>
  After one entry of 45.0 at time 0: the same price at 10 s is dropped, at 30 s it is
  appended, and a different price at 10 s is appended.
\<close>

theorem record_noop_iff_recent_duplicate_witness:
  "currentPrice (quote 45) = Some 45 \<and> (45 :: real) > 0
   \<and> priceHistory oneEntryState = [newEntry (quote 45) 45 0 9]
   \<and> recordPrice (quote 45) 10000 9 oneEntryState = oneEntryState
   \<and> recordPrice (quote 45) 30000 9 oneEntryState \<noteq> oneEntryState
   \<and> priceHistory (recordPrice (quote 45) 30000 9 oneEntryState)
        = [newEntry (quote 45) 45 0 9, newEntry (quote 45) 45 30000 9]
   \<and> recordPrice (quote 50) 10000 9 oneEntryState \<noteq> oneEntryState
   \<and> (40000 :: int) - 0 > 30000 \<and> (80000 :: int) - 40000 > 30000
   \<and> length (priceHistory (recordPrice (quote 45) 80000 9
                (recordPrice (quote 45) 40000 9
                   (recordPrice (quote 45) 0 9 emptyState)))) = 3"
proof -
  have p1: "priceHistory oneEntryState = [newEntry (quote 45) 45 0 9]"
    by (simp add: oneEntryState_def recordPrice_def quote_def isDuplicate_def emptyState_def
          sliceLast_def)
  show ?thesis
    using record_noop_iff_recent_duplicate
            [of "quote 45" 45 10000 9 oneEntryState 40000 0 80000 9 9 9]
          record_noop_iff_recent_duplicate
            [of "quote 45" 45 30000 9 oneEntryState 40000 0 80000 9 9 9]
          record_noop_iff_recent_duplicate
            [of "quote 50" 50 10000 9 oneEntryState 40000 0 80000 9 9 9]
    by (simp add: p1 quote_def newEntry_def sliceLast_def)
qed

subsection \<open>Eviction, and the updater on the price alone\<close>

text \<open>On a full window an admitted observation takes the place of the oldest entry.\<close>

lemma full_window_evicts_oldest:
  assumes "length (priceHistory st) = 50" and "admitted (priceHistory st) ob"
  shows "priceHistory (recordObs st ob) = tl (priceHistory st) @ [obsEntry ob]"
proof -
  have "priceHistory st \<noteq> []" using assms(1) by auto
  then have "drop 1 (priceHistory st @ [obsEntry ob]) = tl (priceHistory st) @ [obsEntry ob]"
    by (cases "priceHistory st") simp_all
  then show ?thesis
    using assms by (simp add: priceHistory_recordObs sliceLast_def)
qed

text \<open>
  The updater of the effect on \<open>[currentPrice]\<close> skips a price within 0.01 of the last one
  however old the last entry is. That effect runs only when the price changes.
\<close>

lemma recordPriceChange_same_price:
  assumes "currentPrice marketData = Some p" and "priceHistory st \<noteq> []"
    and "\<bar>price (last (priceHistory st)) - p\<bar> < 0.01"
  shows "recordPriceChange marketData now st = st"
  using assms by (simp add: recordPriceChange_def Let_def)

lemma priceHistory_recordPriceChange:
  assumes "currentPrice marketData = Some p" and "p > 0"
    and "\<not> (priceHistory st \<noteq> [] \<and> \<bar>price (last (priceHistory st)) - p\<bar> < 0.01)"
  shows "priceHistory (recordPriceChange marketData now st)
           = sliceLast 50 (priceHistory st @ [\<lparr> price = p, timestamp = now, hour = None,
                entryDemand = None, entryRenewablePercentage = None \<rparr>])"
  using assms by (auto simp: recordPriceChange_def Let_def sliceLast_def)

text \<open>
  When the price changes both effects run, the updater on the price alone first, and their
  two clock readings are much less than 30 s apart. The window is then left unchanged under
  the same condition as by \<open>recordPrice\<close> alone: the entry the first updater appends is the
  duplicate the second one drops.
\<close>

lemma both_updaters_noop_iff:
  assumes p: "currentPrice marketData = Some p" "p > 0"
    and close: "now2 - now1 < 30000"
  shows "priceHistory (recordPrice marketData now2 nowHour (recordPriceChange marketData now1 st))
           = priceHistory st
         \<longleftrightarrow> isDuplicate (priceHistory st) p now2"
proof (cases "priceHistory st \<noteq> [] \<and> \<bar>price (last (priceHistory st)) - p\<bar> < 0.01")
  case True
  then have same: "recordPriceChange marketData now1 st = st"
    using p(1) by (simp add: recordPriceChange_same_price)
  show ?thesis
  proof (cases "isDuplicate (priceHistory st) p now2")
    case d: True
    then show ?thesis
      using p(1) by (simp add: same recordPrice_duplicate)
  next
    case d: False
    have "priceHistory (recordPrice marketData now2 nowHour st)
            = sliceLast 50 (priceHistory st @ [newEntry marketData p now2 nowHour])"
      using p d by (rule priceHistory_recordPrice)
    moreover have "sliceLast 50 (priceHistory st @ [newEntry marketData p now2 nowHour])
                     \<noteq> priceHistory st"
    proof
      assume "sliceLast 50 (priceHistory st @ [newEntry marketData p now2 nowHour])
                = priceHistory st"
      then have "last (priceHistory st) = newEntry marketData p now2 nowHour"
        using sliceLast_snoc_neq [of 50 "priceHistory st" "newEntry marketData p now2 nowHour"]
        by simp
      then have "isDuplicate (priceHistory st) p now2"
        using True by (simp add: isDuplicate_def newEntry_def)
      then show False using d by simp
    qed
    ultimately show ?thesis using d by (simp add: same)
  qed
next
  case False
  let ?e = "\<lparr> price = p, timestamp = now1, hour = None, entryDemand = None,
              entryRenewablePercentage = None \<rparr>"
  let ?st1 = "recordPriceChange marketData now1 st"
  have h1: "priceHistory ?st1 = sliceLast 50 (priceHistory st @ [?e])"
    using p False by (rule priceHistory_recordPriceChange)
  then have "priceHistory ?st1 \<noteq> []" and "last (priceHistory ?st1) = ?e"
    by (simp_all add: sliceLast_def)
  then have "isDuplicate (priceHistory ?st1) p now2"
    using close by (simp add: isDuplicate_def)
  then have "recordPrice marketData now2 nowHour ?st1 = ?st1"
    using p(1) by (simp add: recordPrice_duplicate)
  moreover have "priceHistory ?st1 \<noteq> priceHistory st"
  proof
    assume "priceHistory ?st1 = priceHistory st"
    then have "sliceLast 50 (priceHistory st @ [?e]) = priceHistory st"
      using h1 by simp
    then have "priceHistory st \<noteq> [] \<and> last (priceHistory st) = ?e"
      using sliceLast_snoc_neq [of 50 "priceHistory st" ?e] by simp
    then show False using False by simp
  qed
  moreover have "\<not> isDuplicate (priceHistory st) p now2"
    using False by (auto simp: isDuplicate_def)
  ultimately show ?thesis by simp
qed

section \<open>The degree-2 polynomial fit\<close>

lemma length_normalMatrix:
  "xData \<noteq> [] \<Longrightarrow> length (normalMatrix xData degree) = degree + 1"
  by (simp add: normalMatrix_def transposeX_def vandermonde_def Let_def)

text \<open>
  The \<open>catch\<close> block is reached exactly for a degree below 2, where the determinant reads
  a row that the matrix does not have.
\<close>

lemma polyTry_throws_iff:
  assumes "xData \<noteq> []"
  shows "(\<exists>e. polyTry xData yData degree = Inl e) \<longleftrightarrow> degree < 2"
proof -
  have len: "length (normalMatrix xData degree) = degree + 1"
    using assms by (rule length_normalMatrix)
  show ?thesis
  proof (cases "degree < 2")
    case True
    then have "rowAt (normalMatrix xData degree) 2 = Inl TypeError"
      by (simp add: rowAt_def len)
    then show ?thesis using True
      by (auto simp: polyTry_def Let_def split: sum.splits)
  next
    case False
    then have "rowAt (normalMatrix xData degree) 0 = Inr (normalMatrix xData degree ! 0)"
      and "rowAt (normalMatrix xData degree) 1 = Inr (normalMatrix xData degree ! 1)"
      and "rowAt (normalMatrix xData degree) 2 = Inr (normalMatrix xData degree ! 2)"
      by (simp_all add: rowAt_def len)
    then show ?thesis using False
      by (simp add: polyTry_def Let_def)
  qed
qed

lemma polyTry_degree2:
  assumes "xData \<noteq> []"
  shows "polyTry xData yData 2 =
           (if \<bar>polyDet xData\<bar> < 1 / 10 ^ 10 then Inr (linearPadded xData yData)
            else Inr (PolyFit
                   (cramer (normalMatrix xData 2 ! 0) (normalMatrix xData 2 ! 1)
                      (normalMatrix xData 2 ! 2) (normalRhs xData yData 2) (polyDet xData))
                   (polyRSquared xData yData
                      (cramer (normalMatrix xData 2 ! 0) (normalMatrix xData 2 ! 1)
                         (normalMatrix xData 2 ! 2) (normalRhs xData yData 2) (polyDet xData)))))"
proof -
  have len: "length (normalMatrix xData 2) = 3"
    using assms length_normalMatrix [of xData 2] by simp
  then have "rowAt (normalMatrix xData 2) 0 = Inr (normalMatrix xData 2 ! 0)"
    and "rowAt (normalMatrix xData 2) 1 = Inr (normalMatrix xData 2 ! 1)"
    and "rowAt (normalMatrix xData 2) 2 = Inr (normalMatrix xData 2 ! 2)"
    by (simp_all add: rowAt_def)
  then show ?thesis
    by (simp add: polyTry_def polyDet_def Let_def)
qed

text \<open>
  Claim C5. When the determinant of the normal equations is below \<open>10\<^sup>-\<^sup>1\<^sup>0\<close> in absolute
  value, \<open>computePolynomialRegression\<close> returns the linear fit's intercept and slope with
  a zero quadratic term, and the linear \<open>rSquared\<close>. No call throws: with fewer than 3
  points the guard returns the zero fit, and with 3 or more the \<open>try\<close> block ends in a
  value, which is the result.
\<close>

theorem poly_degenerate_falls_back_to_linear:
  "(3 \<le> length xData \<and> length yData = length xData \<and> \<bar>polyDet xData\<bar> < 1 / 10 ^ 10 \<longrightarrow>
      computePolynomialRegression xData yData 2 =
        PolyFit [intercept (computeLinearRegression xData yData),
                 slope (computeLinearRegression xData yData), 0]
                (rSquared (computeLinearRegression xData yData)))
   \<and> (length xData < 3 \<longrightarrow> computePolynomialRegression xData yData 2 = PolyFit [0, 0, 0] 0)
   \<and> (3 \<le> length xData \<longrightarrow>
        (\<exists>result. polyTry xData yData 2 = Inr result
                 \<and> computePolynomialRegression xData yData 2 = result))"
proof (intro conjI impI)
  assume h: "3 \<le> length xData \<and> length yData = length xData \<and> \<bar>polyDet xData\<bar> < 1 / 10 ^ 10"
  then have ne: "xData \<noteq> []" by auto
  show "computePolynomialRegression xData yData 2 =
        PolyFit [intercept (computeLinearRegression xData yData),
                 slope (computeLinearRegression xData yData), 0]
                (rSquared (computeLinearRegression xData yData))"
    using h by (simp add: computePolynomialRegression_def polyTry_degree2 [OF ne]
                  linearPadded_def Let_def)
next
  assume "length xData < 3"
  then show "computePolynomialRegression xData yData 2 = PolyFit [0, 0, 0] 0"
    by (simp add: computePolynomialRegression_def)
next
  assume h: "3 \<le> length xData"
  then have ne: "xData \<noteq> []" by auto
  show "\<exists>result. polyTry xData yData 2 = Inr result
                 \<and> computePolynomialRegression xData yData 2 = result"
    using h by (simp add: computePolynomialRegression_def polyTry_degree2 [OF ne])
qed

text \<open>Three points at the same abscissa make the determinant zero.\<close>

theorem poly_degenerate_falls_back_to_linear_witness:
  "3 \<le> length [1, 1, 1 :: real] \<and> length [1, 2, 3 :: real] = length [1, 1, 1 :: real]
   \<and> \<bar>polyDet [1, 1, 1]\<bar> < 1 / 10 ^ 10
   \<and> computeLinearRegression [1, 1, 1] [1, 2, 3] = LinearFit 0 2 0
   \<and> computePolynomialRegression [1, 1, 1] [1, 2, 3] 2 = PolyFit [2, 0, 0] 0
   \<and> length [1 :: real] < 3
   \<and> computePolynomialRegression [1] [7] 2 = PolyFit [0, 0, 0] 0"
proof -
  have d: "polyDet [1, 1, 1] = 0"
    by (simp add: polyDet_def normalMatrix_def transposeX_def vandermonde_def dotIndexed_def
          det3_def Let_def)
  have l: "computeLinearRegression [1, 1, 1] [1, 2, 3] = LinearFit 0 2 0"
    by (simp add: computeLinearRegression_def Let_def)
  show ?thesis
    using poly_degenerate_falls_back_to_linear [of "[1, 1, 1]" "[1, 2, 3]"]
      poly_degenerate_falls_back_to_linear [of "[1]" "[7]"]
    by (simp add: d l)
qed

section \<open>Prediction\<close>

subsection \<open>The fits of the example windows\<close>

lemma line_linear: "computeLinearRegression [0, 1, 2, 3, 4] [40, 42, 44, 46, 48] = LinearFit 2 40 1"
  by code_simp

lemma line_poly: "computePolynomialRegression [0, 1, 2, 3, 4] [40, 42, 44, 46, 48] 2 = PolyFit [40, 2, 0] 1"
  by code_simp

lemma parabola_linear: "computeLinearRegression [0, 1, 2, 3, 4] [5, 2, 1, 2, 5] = LinearFit 0 3 0"
  by code_simp

lemma parabola_poly: "computePolynomialRegression [0, 1, 2, 3, 4] [5, 2, 1, 2, 5] 2 = PolyFit [5, -4, 1] 1"
  by code_simp

lemma falling_linear:
  "computeLinearRegression [0, 1, 2] [100, 50, 1] = LinearFit (- 99 / 2) (599 / 6) (29403 / 29404)"
  by code_simp

lemma upt5: "[0..<5] = [0, 1, 2, 3, 4]" by code_simp
lemma upt3: "[0..<3] = [0, 1, 2]" by code_simp

lemma fit_line:
  "fitModel lineWindow now =
     \<lparr> mtype = linear, mfit = LinearFit 2 40 1, lastUpdate = now, dataPoints = 5,
       trend = upward \<rparr>"
  by (simp add: fitModel_def lineWindow_def entryAt_def newEntry_def upt5 line_linear line_poly
        classifyTrend_def Let_def)

lemma fit_parabola:
  "fitModel parabolaWindow now =
     \<lparr> mtype = polynomial, mfit = PolyFit [5, -4, 1] 1, lastUpdate = now, dataPoints = 5,
       trend = complex \<rparr>"
  by (simp add: fitModel_def parabolaWindow_def entryAt_def newEntry_def upt5 parabola_linear
        parabola_poly classifyTrend_def Let_def)

lemma fit_falling:
  "fitModel fallingWindow now =
     \<lparr> mtype = linear, mfit = LinearFit (- 99 / 2) (599 / 6) (29403 / 29404),
       lastUpdate = now, dataPoints = 3, trend = downward \<rparr>"
  by (simp add: fitModel_def fallingWindow_def entryAt_def newEntry_def upt3 falling_linear
        classifyTrend_def Let_def)

subsection \<open>The two paths of the prediction\<close>


lemma predict_fallback:
  assumes "regressionModel st = None \<or> length (priceHistory st) < 3"
  shows "predictPriceWithRegression st marketData nowHour rndHour rndNoise hoursAhead =
           \<lparr> predictedPrice = orElse (currentPrice marketData) 45.0, confidence = 30,
             methodOut = fallback, rSquaredOut = None, trendOut = None, volatility = None \<rparr>"
  using assms by (auto simp: predictPriceWithRegression_def split: option.splits)

lemma predict_fitted_confidence:
  assumes "regressionModel st = Some m" and "3 \<le> length (priceHistory st)"
  shows "confidence (predictPriceWithRegression st marketData nowHour rndHour rndNoise hoursAhead) =
           max 25 (min 95 (rSquared (mfit m) * 100) + hourBonus ((nowHour + hoursAhead) mod 24)
                   - real hoursAhead * 5)"
  using assms by (simp add: predictPriceWithRegression_def Let_def hourBonus_def)

lemma predict_fitted_fields:
  assumes "regressionModel st = Some m" and "3 \<le> length (priceHistory st)"
  shows "methodOut (predictPriceWithRegression st marketData nowHour rndHour rndNoise hoursAhead)
           = ofType (mtype m)"
    and "trendOut (predictPriceWithRegression st marketData nowHour rndHour rndNoise hoursAhead)
           = Some (trend m)"
    and "rSquaredOut (predictPriceWithRegression st marketData nowHour rndHour rndNoise hoursAhead)
           = Some (rSquared (mfit m))"
    and "volatility (predictPriceWithRegression st marketData nowHour rndHour rndNoise hoursAhead)
           = Some (recentVolatility (priceHistory st))"
  using assms by (simp_all add: predictPriceWithRegression_def Let_def)

lemma fitted_or_fallback:
  obtains "regressionModel st = None \<or> length (priceHistory st) < 3"
  | m where "regressionModel st = Some m" and "3 \<le> length (priceHistory st)"
proof (cases "regressionModel st")
  case None
  then show ?thesis using that(1) by simp
next
  case (Some m)
  show ?thesis
  proof (cases "length (priceHistory st) < 3")
    case True
    then show ?thesis using that(1) by simp
  next
    case False
    then show ?thesis using that(2) [OF Some] by simp
  qed
qed

lemma fittedState_simps:
  "priceHistory (fittedState w) = w"
  "regressionModel (fittedState w) = Some (fitModel w (timestamp (last w)))"
  by (simp_all add: fittedState_def)

lemma window_lengths:
  "length lineWindow = 5" "length parabolaWindow = 5" "length fallingWindow = 3"
  by (simp_all add: lineWindow_def parabolaWindow_def fallingWindow_def)

lemma window_stamps:
  "timestamp (last lineWindow) = 240000" "timestamp (last parabolaWindow) = 240000"
  "timestamp (last fallingWindow) = 120000"
  by (simp_all add: lineWindow_def parabolaWindow_def fallingWindow_def entryAt_def newEntry_def)

text \<open>
  Claim C1 as stated fails: the fallback object of the empty window has no \<open>trend\<close>
  field, so its trend is not \<open>stable\<close>.
\<close>

theorem fallback_below_three_samples_counterexample:
  "length (priceHistory emptyState) < 3
   \<and> trendOut (predictPriceWithRegression emptyState (quote 45) 9 0 0 1) \<noteq> Some stable"
  by (simp add: predictPriceWithRegression_def emptyState_def)

text \<open>
  Claim C1, amended. With fewer than 3 entries in the window, for every horizon, hour and
  random draw, the prediction is exactly \<open>{ predictedPrice: currentPrice || 45.0,
  confidence: 30, method: 'fallback' }\<close> and has no \<open>trend\<close>, \<open>rSquared\<close> or \<open>volatility\<close>
  field.
\<close>

theorem fallback_below_three_samples:
  "length (priceHistory st) < 3 \<Longrightarrow>
   predictPriceWithRegression st marketData nowHour rndHour rndNoise hoursAhead =
     \<lparr> predictedPrice = orElse (currentPrice marketData) 45.0, confidence = 30,
       methodOut = fallback, rSquaredOut = None, trendOut = None, volatility = None \<rparr>"
  by (simp add: predict_fallback)

text \<open>With one entry in the window the current price 52 is returned, and 45 when there is none.\<close>

theorem fallback_below_three_samples_witness:
  "length (priceHistory oneEntryState) < 3
   \<and> predictPriceWithRegression oneEntryState (quote 52) 9 0 0 4 =
       \<lparr> predictedPrice = 52, confidence = 30, methodOut = fallback, rSquaredOut = None,
         trendOut = None, volatility = None \<rparr>
   \<and> predictedPrice (predictPriceWithRegression oneEntryState
         \<lparr> currentPrice = None, demand = None, renewablePercentage = None \<rparr> 9 0 0 4) = 45"
proof -
  have l: "length (priceHistory oneEntryState) < 3"
    by (simp add: oneEntryState_def recordPrice_def quote_def isDuplicate_def emptyState_def
          sliceLast_def)
  show ?thesis
    using l fallback_below_three_samples [OF l, of "quote 52" 9 0 0 4]
      fallback_below_three_samples [OF l,
        of "\<lparr> currentPrice = None, demand = None, renewablePercentage = None \<rparr>" 9 0 0 4]
    by (simp add: quote_def)
qed

section \<open>Model selection, trend and random draws\<close>

lemma flat_linear: "computeLinearRegression [0, 1, 2] [45, 45, 45] = LinearFit 0 45 0"
  by code_simp

lemma fit_flat:
  "fitModel flatWindow now =
     \<lparr> mtype = linear, mfit = LinearFit 0 45 0, lastUpdate = now, dataPoints = 3,
       trend = stable \<rparr>"
  by (simp add: fitModel_def flatWindow_def entryAt_def newEntry_def upt3 flat_linear
        classifyTrend_def Let_def)

lemma index_data:
  "map real [0..<5] = [0, 1, 2, 3, 4]" "map real [0..<3] = [0, 1, 2]"
  by (simp_all add: upt5 upt3)

lemma window_prices:
  "map price lineWindow = [40, 42, 44, 46, 48]"
  "map price parabolaWindow = [5, 2, 1, 2, 5]"
  "map price fallingWindow = [100, 50, 1]"
  "map price flatWindow = [45, 45, 45]"
  by (simp_all add: lineWindow_def parabolaWindow_def fallingWindow_def flatWindow_def
        entryAt_def newEntry_def)

lemma flat_length: "length flatWindow = 3"
  by (simp add: flatWindow_def)

text \<open>
  Claim C4. On a window of at least 5 entries the fit selects the polynomial model exactly
  when its \<open>rSquared\<close> exceeds the linear \<open>rSquared\<close> by more than 0.1, and the linear model
  otherwise (so on a tie and on any smaller improvement); the stored fit is the selected
  one. On a window of fewer than 5 entries, hence of 3 or 4, the model is linear.
\<close>

theorem polynomial_selected_iff_margin:
  "(5 \<le> length w \<longrightarrow>
      (mtype (fitModel w now) = polynomial \<longleftrightarrow>
         rSquared (computePolynomialRegression (map real [0..<length w]) (map price w) 2)
           > rSquared (computeLinearRegression (map real [0..<length w]) (map price w)) + 0.1)
      \<and> (mtype (fitModel w now) = linear \<longleftrightarrow>
         \<not> rSquared (computePolynomialRegression (map real [0..<length w]) (map price w) 2)
           > rSquared (computeLinearRegression (map real [0..<length w]) (map price w)) + 0.1)
      \<and> (mtype (fitModel w now) = polynomial \<longrightarrow>
           mfit (fitModel w now)
             = computePolynomialRegression (map real [0..<length w]) (map price w) 2)
      \<and> (mtype (fitModel w now) = linear \<longrightarrow>
           mfit (fitModel w now)
             = computeLinearRegression (map real [0..<length w]) (map price w)))
   \<and> (length w < 5 \<longrightarrow>
        mtype (fitModel w now) = linear
        \<and> mfit (fitModel w now)
            = computeLinearRegression (map real [0..<length w]) (map price w))"
  by (simp add: fitModel_def Let_def)

text \<open>
  The parabola is fitted exactly by the polynomial and not at all by the line: polynomial.
  The line is fitted exactly by both: linear. Three entries: linear.
\<close>

theorem polynomial_selected_iff_margin_witness:
  "5 \<le> length parabolaWindow
   \<and> rSquared (computePolynomialRegression [0, 1, 2, 3, 4] [5, 2, 1, 2, 5] 2) = 1
   \<and> rSquared (computeLinearRegression [0, 1, 2, 3, 4] [5, 2, 1, 2, 5]) = 0
   \<and> mtype (fitModel parabolaWindow 0) = polynomial
   \<and> 5 \<le> length lineWindow
   \<and> rSquared (computePolynomialRegression [0, 1, 2, 3, 4] [40, 42, 44, 46, 48] 2) = 1
   \<and> rSquared (computeLinearRegression [0, 1, 2, 3, 4] [40, 42, 44, 46, 48]) = 1
   \<and> mtype (fitModel lineWindow 0) = linear
   \<and> length fallingWindow < 5
   \<and> mtype (fitModel fallingWindow 0) = linear"
  using polynomial_selected_iff_margin [of parabolaWindow 0]
    polynomial_selected_iff_margin [of lineWindow 0]
    polynomial_selected_iff_margin [of fallingWindow 0]
  by (simp add: window_lengths index_data window_prices line_linear line_poly parabola_linear
        parabola_poly)

text \<open>
  Claim C6 as stated fails: on the parabola window the linear slope is 0, the polynomial
  model is selected, and the trend label is not \<open>stable\<close>.
\<close>

theorem trend_from_linear_slope_counterexample:
  "3 \<le> length parabolaWindow
   \<and> slope (computeLinearRegression (map real [0..<length parabolaWindow])
              (map price parabolaWindow)) = 0
   \<and> mtype (fitModel parabolaWindow 0) = polynomial
   \<and> trend (fitModel parabolaWindow 0) \<noteq> stable"
  by (simp add: window_lengths index_data window_prices parabola_linear fit_parabola)

text \<open>
  Claim C6, amended. When the linear model is selected the trend is \<open>upward\<close> for a linear
  slope above 0.01, \<open>downward\<close> for one below -0.01 and \<open>stable\<close> otherwise; when the
  polynomial model is selected the trend is the label \<open>complex\<close>.
\<close>

theorem trend_of_selected_model:
  "(mtype (fitModel w now) = linear \<longrightarrow>
      trend (fitModel w now) =
        (if slope (computeLinearRegression (map real [0..<length w]) (map price w)) > 0.01
         then upward
         else if slope (computeLinearRegression (map real [0..<length w]) (map price w)) < - 0.01
         then downward
         else stable))
   \<and> (mtype (fitModel w now) = polynomial \<longrightarrow> trend (fitModel w now) = complex)"
  by (simp add: fitModel_def classifyTrend_def Let_def)

text \<open>The four labels, each on one example window.\<close>

theorem trend_of_selected_model_witness:
  "mtype (fitModel lineWindow 0) = linear \<and> trend (fitModel lineWindow 0) = upward
   \<and> mtype (fitModel fallingWindow 0) = linear \<and> trend (fitModel fallingWindow 0) = downward
   \<and> mtype (fitModel flatWindow 0) = linear \<and> trend (fitModel flatWindow 0) = stable
   \<and> mtype (fitModel parabolaWindow 0) = polynomial
   \<and> trend (fitModel parabolaWindow 0) = complex"
  using trend_of_selected_model [of lineWindow 0] trend_of_selected_model [of fallingWindow 0]
    trend_of_selected_model [of flatWindow 0] trend_of_selected_model [of parabolaWindow 0]
  by (simp add: fit_line fit_falling fit_flat fit_parabola window_lengths flat_length
        index_data window_prices line_linear falling_linear flat_linear)

lemma predict_line_low:
  "predictedPrice (predictPriceWithRegression (fittedState lineWindow) (quote 48) 9 0 (1 / 2) 1)
     = 105 / 2"
  by (simp add: predictPriceWithRegression_def fittedState_simps window_lengths fit_line
        evalModel_def isPeakHour_def isNightHour_def Let_def)

lemma predict_line_high:
  "predictedPrice
     (predictPriceWithRegression (fittedState lineWindow) (quote 48) 9 (1 / 2) (1 / 2) 1)
     = 215 / 4"
  by (simp add: predictPriceWithRegression_def fittedState_simps window_lengths fit_line
        evalModel_def isPeakHour_def isNightHour_def Let_def)

text \<open>
  Claim C9 as stated fails: on the same state, at the same hour and for the same horizon,
  two draws of the peak multiplier give two predicted prices.
\<close>

theorem predict_deterministic_counterexample:
  "predictedPrice (predictPriceWithRegression (fittedState lineWindow) (quote 48) 9 0 (1 / 2) 1)
   \<noteq> predictedPrice
       (predictPriceWithRegression (fittedState lineWindow) (quote 48) 9 (1 / 2) (1 / 2) 1)"
  unfolding predict_line_low predict_line_high by simp

text \<open>
  Claim C9, amended. For the same state, market data, hour and horizon, the confidence,
  method, trend, \<open>rSquared\<close> and volatility of the prediction do not depend on the random
  draws; the predicted price is the same when the two draws are the same.
\<close>

theorem predict_deterministic_up_to_draws:
  "confidence (predictPriceWithRegression st marketData nowHour rndHour rndNoise hoursAhead)
     = confidence (predictPriceWithRegression st marketData nowHour rndHour' rndNoise' hoursAhead)
   \<and> methodOut (predictPriceWithRegression st marketData nowHour rndHour rndNoise hoursAhead)
     = methodOut (predictPriceWithRegression st marketData nowHour rndHour' rndNoise' hoursAhead)
   \<and> trendOut (predictPriceWithRegression st marketData nowHour rndHour rndNoise hoursAhead)
     = trendOut (predictPriceWithRegression st marketData nowHour rndHour' rndNoise' hoursAhead)
   \<and> rSquaredOut (predictPriceWithRegression st marketData nowHour rndHour rndNoise hoursAhead)
     = rSquaredOut (predictPriceWithRegression st marketData nowHour rndHour' rndNoise' hoursAhead)
   \<and> volatility (predictPriceWithRegression st marketData nowHour rndHour rndNoise hoursAhead)
     = volatility (predictPriceWithRegression st marketData nowHour rndHour' rndNoise' hoursAhead)
   \<and> (rndHour = rndHour' \<and> rndNoise = rndNoise' \<longrightarrow>
        predictedPrice (predictPriceWithRegression st marketData nowHour rndHour rndNoise hoursAhead)
        = predictedPrice
            (predictPriceWithRegression st marketData nowHour rndHour' rndNoise' hoursAhead))"
proof (cases st rule: fitted_or_fallback)
  case 1
  then show ?thesis by (simp add: predict_fallback)
next
  case (2 m)
  then show ?thesis
    by (simp add: predict_fitted_confidence [OF 2] predict_fitted_fields [OF 2])
qed

lemma line_state_model:
  "regressionModel (fittedState lineWindow)
     = Some \<lparr> mtype = linear, mfit = LinearFit 2 40 1, lastUpdate = 240000, dataPoints = 5,
              trend = upward \<rparr>"
  "3 \<le> length (priceHistory (fittedState lineWindow))"
  by (simp_all add: fittedState_simps fit_line window_stamps window_lengths)

text \<open>Two calls with different draws on the line window agree on every field but the price.\<close>

theorem predict_deterministic_up_to_draws_witness:
  "confidence (predictPriceWithRegression (fittedState lineWindow) (quote 48) 9 0 (1 / 2) 1)
     = confidence
         (predictPriceWithRegression (fittedState lineWindow) (quote 48) 9 (1 / 2) (1 / 4) 1)
   \<and> confidence (predictPriceWithRegression (fittedState lineWindow) (quote 48) 9 0 (1 / 2) 1)
       = 95
   \<and> methodOut
         (predictPriceWithRegression (fittedState lineWindow) (quote 48) 9 (1 / 2) (1 / 4) 1)
       = ofType linear
   \<and> trendOut
         (predictPriceWithRegression (fittedState lineWindow) (quote 48) 9 (1 / 2) (1 / 4) 1)
       = Some upward
   \<and> rSquaredOut
         (predictPriceWithRegression (fittedState lineWindow) (quote 48) 9 (1 / 2) (1 / 4) 1)
       = Some 1"
proof -
  have c: "confidence
             (predictPriceWithRegression (fittedState lineWindow) (quote 48) 9 0 (1 / 2) 1) = 95"
    by (simp add: predict_fitted_confidence [OF line_state_model] hourBonus_def
          isPeakHour_def isNightHour_def)
  have f: "methodOut
             (predictPriceWithRegression (fittedState lineWindow) (quote 48) 9 0 (1 / 2) 1)
           = ofType linear"
    "trendOut (predictPriceWithRegression (fittedState lineWindow) (quote 48) 9 0 (1 / 2) 1)
           = Some upward"
    "rSquaredOut (predictPriceWithRegression (fittedState lineWindow) (quote 48) 9 0 (1 / 2) 1)
           = Some 1"
    by (simp_all add: predict_fitted_fields [OF line_state_model])
  show ?thesis
    using predict_deterministic_up_to_draws
            [of "fittedState lineWindow" "quote 48" 9 0 "1 / 2" 1 "1 / 2" "1 / 4"]
    unfolding c f by simp
qed

section \<open>Confidence and price when the stored fit may be \<open>NaN\<close>\<close>












subsection \<open>Agreement with the prediction on reals\<close>




lemma fit_line_wellFormed: "wellFormed (fitModel lineWindow now)"
  by (simp add: fit_line wellFormed_def)












end
